theory Spec2Isabelle
  imports Main
begin

section \<open>Data model\<close>

text \<open>
  A Python \<open>str\<close> that a user can choose (a username, a title, any string inside JSON)
  is the list of its Unicode code points. Identifiers, timestamps, dict keys and the
  program's own messages are written as HOL strings.
\<close>

type_synonym pystr = "nat list"

abbreviation codes :: "string \<Rightarrow> pystr" where
  "codes s \<equiv> map of_char s"

text \<open>
  Values that travel through the application as parsed JSON (request bodies, the
  \<open>message\<close> column of the history table, the fields a handler copies verbatim into a
  stored record). \<open>JObj\<close> holds the items of a Python dict, so its keys are looked up with
  \<open>map_of\<close>. Numbers are restricted to integers. \<open>JStr\<close> writes the JSON string of a
  HOL string.
\<close>

datatype json =
    JNull
  | JBool bool
  | JNum int
  | JText pystr
  | JArr "json list"
  | JObj "(string \<times> json) list"

abbreviation JStr :: "string \<Rightarrow> json" where
  "JStr s \<equiv> JText (codes s)"

text \<open>Python truthiness (\<open>if x\<close>, \<open>not x\<close>) of such a value; \<open>JNull\<close> is \<open>None\<close>.\<close>

fun truthy :: "json \<Rightarrow> bool" where
  "truthy JNull = False"
| "truthy (JBool b) = b"
| "truthy (JNum n) = (n \<noteq> 0)"
| "truthy (JText s) = (s \<noteq> [])"
| "truthy (JArr xs) = (xs \<noteq> [])"
| "truthy (JObj kvs) = (kvs \<noteq> [])"

text \<open>A request body as \<open>request.get_json()\<close> returns it: absent, or a JSON object.\<close>

type_synonym body = "(string \<times> json) list option"

record webhook =
  w_id :: string
  w_name :: json
  w_url :: json

record user =
  u_id :: string
  u_username :: pystr
  u_created_at :: string
  u_last_login :: string

record chat =
  c_id :: string
  c_user_id :: "string option"
  c_session_id :: string
  c_title :: json
  c_created_at :: string
  c_updated_at :: string

text \<open>The Flask session: each key is present with a string value, or absent.\<close>

record session =
  s_username :: "pystr option"
  s_user_id :: "string option"
  s_chat_id :: "string option"
  s_session_id :: "string option"

text \<open>
  What a view returns: \<open>jsonify(...)\<close> with its status code, a redirect, a rendered
  template, or an exception that escapes the view.
\<close>

datatype response =
    Json nat "(string \<times> json) list"
  | Redirect string
  | Render string
  | Unhandled string

fun status_of :: "response \<Rightarrow> nat" where
  "status_of (Json code _) = code"
| "status_of (Redirect _) = 302"
| "status_of (Render _) = 200"
| "status_of (Unhandled _) = 500"


definition opt_json :: "string option \<Rightarrow> json" where
  "opt_json v = (case v of None \<Rightarrow> JNull | Some s \<Rightarrow> JStr s)"

definition webhook_json :: "webhook \<Rightarrow> json" where
  "webhook_json w = JObj [(''id'', JStr (w_id w)), (''name'', w_name w), (''url'', w_url w)]"

definition user_json :: "user \<Rightarrow> json" where
  "user_json u = JObj [(''id'', JStr (u_id u)), (''username'', JText (u_username u)),
     (''created_at'', JStr (u_created_at u)), (''last_login'', JStr (u_last_login u))]"

definition chat_json :: "chat \<Rightarrow> json" where
  "chat_json c = JObj [(''id'', JStr (c_id c)), (''user_id'', opt_json (c_user_id c)),
     (''session_id'', JStr (c_session_id c)), (''title'', c_title c),
     (''created_at'', JStr (c_created_at c)), (''updated_at'', JStr (c_updated_at c))]"

section \<open>Strings\<close>

text \<open>
  \<open>str.isspace\<close>, which decides what \<open>str.strip()\<close> removes: the code points Python
  lists as whitespace (U+0009..U+000D, U+001C..U+0020, U+0085, U+00A0, U+1680,
  U+2000..U+200A, U+2028, U+2029, U+202F, U+205F, U+3000).
\<close>

definition py_isspace :: "nat \<Rightarrow> bool" where
  "py_isspace n =
     ((9 \<le> n \<and> n \<le> 13) \<or> (28 \<le> n \<and> n \<le> 32) \<or> n = 133 \<or> n = 160 \<or> n = 5760
      \<or> (8192 \<le> n \<and> n \<le> 8202) \<or> n = 8232 \<or> n = 8233 \<or> n = 8239 \<or> n = 8287
      \<or> n = 12288)"

definition strip :: "pystr \<Rightarrow> pystr" where
  "strip s = rev (dropWhile py_isspace (rev (dropWhile py_isspace s)))"

text \<open>
  \<open>str.lower()\<close> reads three tables of the Unicode character database of the Python
  runtime: the full lowercase mapping of a code point (one to three code points), and
  the properties Cased and Case_Ignorable. They are parameters of the model.
\<close>

record ucd =
  to_lower_full :: "nat \<Rightarrow> pystr"
  is_cased :: "nat \<Rightarrow> bool"
  is_case_ignorable :: "nat \<Rightarrow> bool"

text \<open>
  Whether a capital sigma (U+03A3) stands in final position: before it, after any
  case-ignorable code points, a cased one; after it, after any case-ignorable code
  points, the end of the string or an uncased one. \<open>before\<close> and \<open>after\<close> are the parts
  of the string on either side.
\<close>

definition final_sigma :: "ucd \<Rightarrow> pystr \<Rightarrow> pystr \<Rightarrow> bool" where
  "final_sigma db before after =
     ((case dropWhile (is_case_ignorable db) (rev before) of
         [] \<Rightarrow> False
       | c # _ \<Rightarrow> is_cased db c)
      \<and> (case dropWhile (is_case_ignorable db) after of
           [] \<Rightarrow> True
         | c # _ \<Rightarrow> \<not> is_cased db c))"

text \<open>
  \<open>str.lower()\<close>, code point by code point: a capital sigma becomes U+03C2 in final
  position and U+03C3 otherwise; every other code point becomes its full lowercase
  mapping. The second argument is the part of the string already passed.
\<close>

fun lower_from :: "ucd \<Rightarrow> pystr \<Rightarrow> pystr \<Rightarrow> pystr" where
  "lower_from db before [] = []"
| "lower_from db before (c # rest) =
     (if c = 931 then [if final_sigma db before rest then 962 else 963]
      else to_lower_full db c)
     @ lower_from db (before @ [c]) rest"

definition lower :: "ucd \<Rightarrow> pystr \<Rightarrow> pystr" where
  "lower db s = lower_from db [] s"



text \<open>\<open>str(n)\<close> for a natural number: its decimal digits.\<close>

fun str_nat :: "nat \<Rightarrow> string" where
  "str_nat n = (if n < 10 then [char_of (48 + n)]
                else str_nat (n div 10) @ [char_of (48 + n mod 10)])"

declare str_nat.simps [simp del]

section \<open>Data files\<close>

text \<open>
  A JSON file of the data directory: missing, present with content that does not parse,
  or holding a list of records.
\<close>

datatype 'a json_file = Missing | Corrupt | Holds "'a list"

record data_dir =
  webhooks_json :: "webhook json_file"
  users_json :: "user json_file"
  chats_json :: "chat json_file"

text \<open>
  \<open>ensure_data_file\<close>: each missing file is created empty; when \<open>chats.json\<close> is the
  missing one, \<open>users.json\<close> is written empty again along with it.
\<close>

definition ensure_data_file :: "data_dir \<Rightarrow> data_dir" where
  "ensure_data_file dir =
     (let d1 = (if webhooks_json dir = Missing then dir\<lparr>webhooks_json := Holds []\<rparr> else dir);
          d2 = (if users_json d1 = Missing then d1\<lparr>users_json := Holds []\<rparr> else d1)
      in if chats_json d2 = Missing
         then d2\<lparr>chats_json := Holds [], users_json := Holds []\<rparr>
         else d2)"



section \<open>User registry\<close>



text \<open>The loop of \<open>add_user\<close> that stamps the first matching user and breaks.\<close>

fun stamp_last_login :: "ucd \<Rightarrow> user list \<Rightarrow> pystr \<Rightarrow> string \<Rightarrow> user list" where
  "stamp_last_login db [] username now = []"
| "stamp_last_login db (u # us) username now =
     (if lower db (u_username u) = lower db username then u\<lparr>u_last_login := now\<rparr> # us
      else u # stamp_last_login db us username now)"


section \<open>Chat registry\<close>

text \<open>
  What a call draws from outside the program: two uuids (in call order), the formatted
  date of the auto-title and two later readings of the clock.
\<close>

record draw =
  uuid_a :: string
  uuid_b :: string
  formatted_date :: string
  now_a :: string
  now_b :: string

definition get_user_chats :: "chat list \<Rightarrow> string option \<Rightarrow> chat list" where
  "get_user_chats chats user_id = filter (\<lambda>c. c_user_id c = user_id) chats"

fun get_chat_by_id :: "chat list \<Rightarrow> string \<Rightarrow> chat option" where
  "get_chat_by_id [] chat_id = None"
| "get_chat_by_id (c # cs) chat_id =
     (if c_id c = chat_id then Some c else get_chat_by_id cs chat_id)"

text \<open>\<open>create_new_chat\<close>; a title that is \<open>None\<close> or otherwise falsy is replaced.\<close>

definition auto_title :: "nat \<Rightarrow> string \<Rightarrow> string" where
  "auto_title user_chats_count fdate =
     ''Chat-'' @ str_nat (user_chats_count + 1) @ '' ('' @ fdate @ '')''"

definition create_new_chat ::
  "chat list \<Rightarrow> string option \<Rightarrow> json \<Rightarrow> draw \<Rightarrow> chat \<times> chat list" where
  "create_new_chat chats user_id title d =
     (let session_id = uuid_a d;
          title' = (if \<not> truthy title
                    then JStr (auto_title (length (get_user_chats chats user_id))
                                 (formatted_date d))
                    else title);
          new_chat = \<lparr>c_id = uuid_b d, c_user_id = user_id, c_session_id = session_id,
                      c_title = title', c_created_at = now_a d, c_updated_at = now_b d\<rparr>
      in (new_chat, chats @ [new_chat]))"

text \<open>
  A run of creations without a title (\<open>create_new_chat(user_id)\<close> once per draw): the
  chats created, in order, and the stored list at the end.
\<close>

fun create_all :: "chat list \<Rightarrow> string option \<Rightarrow> draw list \<Rightarrow> chat list \<times> chat list" where
  "create_all chats user_id [] = ([], chats)"
| "create_all chats user_id (d # ds) =
     (case create_new_chat chats user_id JNull d of
        (new_chat, chats') \<Rightarrow>
          (case create_all chats' user_id ds of
             (created, final) \<Rightarrow> (new_chat # created, final)))"

text \<open>
  \<open>update_chat\<close>: the first chat with the id gets the title of \<open>updates\<close> (if it has one)
  and a new \<open>updated_at\<close>; the result is that chat (or \<open>None\<close>) and the stored list.
\<close>

fun update_chat ::
  "chat list \<Rightarrow> string \<Rightarrow> (string \<times> json) list \<Rightarrow> string \<Rightarrow> chat option \<times> chat list" where
  "update_chat [] chat_id updates now = (None, [])"
| "update_chat (c # cs) chat_id updates now =
     (if c_id c = chat_id then
        (let c1 = (case map_of updates ''title'' of
                     Some t \<Rightarrow> c\<lparr>c_title := t\<rparr>
                   | None \<Rightarrow> c);
             c2 = c1\<lparr>c_updated_at := now\<rparr>
         in (Some c2, c2 # cs))
      else (case update_chat cs chat_id updates now of
              (found, cs') \<Rightarrow> (found, c # cs')))"

definition delete_chat :: "chat list \<Rightarrow> string \<Rightarrow> bool \<times> chat list" where
  "delete_chat chats chat_id =
     (let kept = filter (\<lambda>c. c_id c \<noteq> chat_id) chats
      in if length kept < length chats then (True, kept) else (False, chats))"

section \<open>Webhook registry\<close>

text \<open>\<open>get_webhook_by_id\<close>: the first webhook whose id equals the given value.\<close>

fun get_webhook_by_id :: "webhook list \<Rightarrow> json \<Rightarrow> webhook option" where
  "get_webhook_by_id [] webhook_id = None"
| "get_webhook_by_id (w # ws) webhook_id =
     (if JStr (w_id w) = webhook_id then Some w else get_webhook_by_id ws webhook_id)"

text \<open>
  \<open>update_webhook_legacy\<close> (POST /api/webhook). \<open>fresh\<close> is the value of
  \<open>str(uuid.uuid4())\<close> should the branch that creates a webhook be taken.
\<close>

definition update_webhook_legacy ::
  "webhook list \<Rightarrow> body \<Rightarrow> string \<Rightarrow> response \<times> webhook list" where
  "update_webhook_legacy webhooks data fresh =
     (case data of
        None \<Rightarrow> (Json 400 [(''error'', JStr ''Missing 'webhook_url' in request body.'')], webhooks)
      | Some d \<Rightarrow>
          (if d = [] then
             (Json 400 [(''error'', JStr ''Missing 'webhook_url' in request body.'')], webhooks)
           else
             (case map_of d ''webhook_url'' of
                None \<Rightarrow>
                  (Json 400 [(''error'', JStr ''Missing 'webhook_url' in request body.'')], webhooks)
              | Some new_url \<Rightarrow>
                  (Json 200 [(''message'', JStr ''Webhook updated successfully.''),
                             (''webhook_url'', new_url)],
                   (case webhooks of
                      w # ws \<Rightarrow> w\<lparr>w_url := new_url\<rparr> # ws
                    | [] \<Rightarrow> [\<lparr>w_id = fresh, w_name = JStr ''Default Webhook'',
                              w_url = new_url\<rparr>])))))"

section \<open>History store (database.py)\<close>

text \<open>
  The \<open>message\<close> column arrives as text or as an already decoded value. A row of
  \<open>get_chat_history\<close>'s result holds the decoded message (or the text kept as a string).
\<close>

datatype column = ColText string | ColJson json

record db_row =
  d_id :: int
  d_session_id :: string
  d_message :: column

record history_row =
  h_id :: int
  h_session_id :: string
  h_message :: json

text \<open>
  One use of the database: the connection fails (\<open>psycopg2.Error\<close>); or it succeeds and
  the query fails, or returns the table's rows. In the last two a connection is open, and
  closing it in the \<open>finally\<close> clause may itself raise (the optional string).
\<close>

datatype db_outcome =
    ConnectFailed string
  | QueryFailed string "string option"
  | Table "db_row list" "string option"

definition parse_message :: "(string \<Rightarrow> json option) \<Rightarrow> column \<Rightarrow> json" where
  "parse_message loads col =
     (case col of
        ColJson j \<Rightarrow> j
      | ColText s \<Rightarrow> (case loads s of Some j \<Rightarrow> j | None \<Rightarrow> JStr s))"


definition select_rows :: "db_row list \<Rightarrow> string \<Rightarrow> db_row list" where
  "select_rows table session_id =
     sort_key d_id (filter (\<lambda>r. d_session_id r = session_id) table)"

text \<open>
  \<open>get_chat_history\<close>: both \<open>except\<close> clauses return the empty list; \<open>Inl\<close> is an
  exception leaving the function, which only the \<open>finally\<close> clause can raise. \<open>loads\<close>
  is \<open>json.loads\<close>, \<open>None\<close> where it raises \<open>JSONDecodeError\<close>.
\<close>

definition get_chat_history ::
  "db_outcome \<Rightarrow> (string \<Rightarrow> json option) \<Rightarrow> string \<Rightarrow> string + history_row list" where
  "get_chat_history db loads session_id =
     (case db of
        ConnectFailed e \<Rightarrow> Inr []
      | QueryFailed e closing \<Rightarrow>
          (case closing of Some x \<Rightarrow> Inl x | None \<Rightarrow> Inr [])
      | Table table closing \<Rightarrow>
          (case closing of
             Some x \<Rightarrow> Inl x
           | None \<Rightarrow>
               Inr (map (\<lambda>r. \<lparr>h_id = d_id r, h_session_id = d_session_id r,
                               h_message = parse_message loads (d_message r)\<rparr>)
                      (select_rows table session_id))))"

section \<open>History normalization (app.py)\<close>

text \<open>
  The loop of \<open>get_chat_history_api\<close> over \<open>raw_history\<close>; the second argument is
  \<open>formatted_history\<close>, appended to at the end.
\<close>

fun format_history :: "history_row list \<Rightarrow> json list \<Rightarrow> json list" where
  "format_history [] formatted_history = formatted_history"
| "format_history (msg # rest) formatted_history =
     (case h_message msg of
        JObj message_data \<Rightarrow>
          (let msg_type = (case map_of message_data ''type'' of
                             None \<Rightarrow> JStr [] | Some t \<Rightarrow> t);
               msg_content = (case map_of message_data ''content'' of
                                None \<Rightarrow> JStr [] | Some v \<Rightarrow> v)
           in if msg_type = JStr ''human'' then
                format_history rest
                  (formatted_history @ [JObj [(''role'', JStr ''user''),
                                              (''content'', msg_content)]])
              else if msg_type = JStr ''ai'' then
                format_history rest
                  (formatted_history @ [JObj [(''role'', JStr ''assistant''),
                                              (''content'', msg_content)]])
              else format_history rest formatted_history)
      | _ \<Rightarrow> format_history rest formatted_history)"

text \<open>
  The normalization as the specification words it: keep the records whose message is an
  object of type "human" or "ai", in order, and map each to its role and content.
\<close>

fun message_type :: "json \<Rightarrow> pystr option" where
  "message_type (JObj kvs) =
     (case map_of kvs ''type'' of Some (JText t) \<Rightarrow> Some t | _ \<Rightarrow> None)"
| "message_type _ = None"

fun message_content :: "json \<Rightarrow> json" where
  "message_content (JObj kvs) =
     (case map_of kvs ''content'' of Some v \<Rightarrow> v | None \<Rightarrow> JStr [])"
| "message_content _ = JStr []"

definition spec_is_turn :: "history_row \<Rightarrow> bool" where
  "spec_is_turn r =
     (message_type (h_message r) = Some (codes ''human'')
      \<or> message_type (h_message r) = Some (codes ''ai''))"

definition spec_entry :: "history_row \<Rightarrow> json" where
  "spec_entry r =
     JObj [(''role'', JStr (if message_type (h_message r) = Some (codes ''human'')
                            then ''user'' else ''assistant'')),
           (''content'', message_content (h_message r))]"

definition spec_fetch_history :: "history_row list \<Rightarrow> json list" where
  "spec_fetch_history raw = map spec_entry (filter spec_is_turn raw)"

text \<open>The \<open>try\<close> block of \<open>get_chat_history_api\<close> and its \<open>except\<close> clause.\<close>

definition history_response ::
  "string option \<Rightarrow> string \<Rightarrow> db_outcome \<Rightarrow> (string \<Rightarrow> json option) \<Rightarrow> response" where
  "history_response chat_id session_id db loads =
     (case get_chat_history db loads session_id of
        Inr raw_history \<Rightarrow>
          (let formatted_history = format_history raw_history []
           in Json 200 [(''chat_id'', opt_json chat_id),
                        (''session_id'', JStr session_id),
                        (''history'', JArr formatted_history),
                        (''total_messages'', JNum (int (length formatted_history)))])
      | Inl e \<Rightarrow>
          Json 200 [(''chat_id'', opt_json chat_id),
                    (''session_id'', JStr session_id),
                    (''history'', JArr []),
                    (''total_messages'', JNum 0),
                    (''error'', JStr (''Could not load chat history: '' @ e))])"

section \<open>Views\<close>

text \<open>
  The three JSON files and the session of the browser that makes the request. The lists are
  what \<open>read_users\<close>, \<open>read_chats\<close> and \<open>read_webhooks\<close> return in a data directory
  whose files are present and parse; there \<open>ensure_data_file\<close> changes nothing.
\<close>

record world =
  st_users :: "user list"
  st_chats :: "chat list"
  st_webhooks :: "webhook list"
  st_session :: session

abbreviation err :: "nat \<Rightarrow> string \<Rightarrow> response" where
  "err code msg \<equiv> Json code [(''error'', JStr msg)]"

text \<open>\<open>login_required\<close>: \<open>url_for('login')\<close> is \<open>/login\<close>.\<close>

definition login_required :: "(world \<Rightarrow> response \<times> world) \<Rightarrow> world \<Rightarrow> response \<times> world" where
  "login_required f w =
     (if s_username (st_session w) = None then (Redirect ''/login'', w) else f w)"

definition chat_interface :: "world \<Rightarrow> response \<times> world" where
  "chat_interface w = (Render ''chatinterface.html'', w)"

definition webhook_management :: "world \<Rightarrow> response \<times> world" where
  "webhook_management w = (Render ''webhookmanagement.html'', w)"

definition get_users :: "world \<Rightarrow> response \<times> world" where
  "get_users w =
     (Json 200 [(''users'', JArr (map user_json (st_users w))),
                (''total'', JNum (int (length (st_users w))))], w)"

text \<open>\<open>session.get('user_id')\<close> followed by \<open>if not user_id\<close>: the id, if it is truthy.\<close>

definition session_user_id :: "world \<Rightarrow> string option" where
  "session_user_id w =
     (case s_user_id (st_session w) of
        None \<Rightarrow> None
      | Some uid \<Rightarrow> if uid = [] then None else Some uid)"

definition get_chats :: "world \<Rightarrow> response \<times> world" where
  "get_chats w =
     (case session_user_id w of
        None \<Rightarrow> (err 401 ''User not found in session.'', w)
      | Some user_id \<Rightarrow>
          (let chats = get_user_chats (st_chats w) (Some user_id)
           in (Json 200 [(''chats'', JArr (map chat_json chats)),
                         (''total'', JNum (int (length chats)))], w)))"

definition body_get :: "body \<Rightarrow> string \<Rightarrow> json" where
  "body_get data k =
     (case data of
        None \<Rightarrow> JNull
      | Some d \<Rightarrow> (case map_of d k of None \<Rightarrow> JNull | Some v \<Rightarrow> v))"

definition create_chat :: "world \<Rightarrow> body \<Rightarrow> draw \<Rightarrow> response \<times> world" where
  "create_chat w data d =
     (case session_user_id w of
        None \<Rightarrow> (err 401 ''User not found in session.'', w)
      | Some user_id \<Rightarrow>
          (case create_new_chat (st_chats w) (Some user_id) (body_get data ''title'') d of
             (new_chat, chats') \<Rightarrow>
               (Json 201 [(''message'', JStr ''Chat created successfully.''),
                          (''chat'', chat_json new_chat)],
                w\<lparr>st_chats := chats',
                   st_session := (st_session w)\<lparr>s_chat_id := Some (c_id new_chat),
                       s_session_id := Some (c_session_id new_chat)\<rparr>\<rparr>)))"

definition update_chat_endpoint ::
  "world \<Rightarrow> string \<Rightarrow> body \<Rightarrow> string \<Rightarrow> response \<times> world" where
  "update_chat_endpoint w chat_id data now =
     (case session_user_id w of
        None \<Rightarrow> (err 401 ''User not found in session.'', w)
      | Some user_id \<Rightarrow>
          (case get_chat_by_id (st_chats w) chat_id of
             None \<Rightarrow> (err 404 ''Chat not found.'', w)
           | Some chat \<Rightarrow>
               if c_user_id chat \<noteq> Some user_id then (err 403 ''Unauthorized.'', w)
               else if body_get data ''action'' = JStr ''switch'' then
                 (Json 200 [(''message'', JStr ''Switched to chat successfully.''),
                            (''chat'', chat_json chat)],
                  w\<lparr>st_session := (st_session w)\<lparr>s_chat_id := Some chat_id,
                       s_session_id := Some (c_session_id chat)\<rparr>\<rparr>)
               else
                 (let updates =
                        (case data of
                           None \<Rightarrow> []
                         | Some d \<Rightarrow> (case map_of d ''title'' of
                                        None \<Rightarrow> []
                                      | Some t \<Rightarrow> [(''title'', t)]))
                  in case update_chat (st_chats w) chat_id updates now of
                       (Some updated_chat, chats') \<Rightarrow>
                         (Json 200 [(''message'', JStr ''Chat updated successfully.''),
                                    (''chat'', chat_json updated_chat)],
                          w\<lparr>st_chats := chats'\<rparr>)
                     | (None, chats') \<Rightarrow> (err 500 ''Failed to update chat.'', w))))"

text \<open>
  \<open>rename_chat_endpoint\<close>. A title that is not a string has no \<open>strip\<close>: the
  \<open>AttributeError\<close> escapes the view.
\<close>

definition rename_chat_endpoint ::
  "world \<Rightarrow> string \<Rightarrow> body \<Rightarrow> string \<Rightarrow> response \<times> world" where
  "rename_chat_endpoint w chat_id data now =
     (case session_user_id w of
        None \<Rightarrow> (err 401 ''User not found in session.'', w)
      | Some user_id \<Rightarrow>
          (case get_chat_by_id (st_chats w) chat_id of
             None \<Rightarrow> (err 404 ''Chat not found.'', w)
           | Some chat \<Rightarrow>
               if c_user_id chat \<noteq> Some user_id then (err 403 ''Unauthorized.'', w)
               else
                 (case data of
                    None \<Rightarrow> (err 400 ''Missing 'title' in request body.'', w)
                  | Some d \<Rightarrow>
                      (case map_of d ''title'' of
                         None \<Rightarrow> (err 400 ''Missing 'title' in request body.'', w)
                       | Some (JText title) \<Rightarrow>
                           (let new_title = strip title
                            in if new_title = [] then (err 400 ''Title cannot be empty.'', w)
                               else if length new_title > 100 then
                                 (err 400 ''Title must be 100 characters or less.'', w)
                               else
                                 (case update_chat (st_chats w) chat_id
                                         [(''title'', JText new_title)] now of
                                    (Some updated_chat, chats') \<Rightarrow>
                                      (Json 200 [(''message'', JStr ''Chat renamed successfully.''),
                                                 (''chat'', chat_json updated_chat)],
                                       w\<lparr>st_chats := chats'\<rparr>)
                                  | (None, chats') \<Rightarrow> (err 500 ''Failed to rename chat.'', w)))
                       | Some _ \<Rightarrow> (Unhandled ''AttributeError'', w)))))"

definition delete_chat_endpoint :: "world \<Rightarrow> string \<Rightarrow> response \<times> world" where
  "delete_chat_endpoint w chat_id =
     (case session_user_id w of
        None \<Rightarrow> (err 401 ''User not found in session.'', w)
      | Some user_id \<Rightarrow>
          (case get_chat_by_id (st_chats w) chat_id of
             None \<Rightarrow> (err 404 ''Chat not found.'', w)
           | Some chat \<Rightarrow>
               if c_user_id chat \<noteq> Some user_id then (err 403 ''Unauthorized.'', w)
               else
                 (case delete_chat (st_chats w) chat_id of
                    (True, chats') \<Rightarrow>
                      (Json 200 [(''message'', JStr ''Chat deleted successfully.'')],
                       (if s_chat_id (st_session w) = Some chat_id
                        then w\<lparr>st_chats := chats',
                               st_session := (st_session w)\<lparr>s_chat_id := None,
                                   s_session_id := None\<rparr>\<rparr>
                        else w\<lparr>st_chats := chats'\<rparr>))
                  | (False, chats') \<Rightarrow> (err 500 ''Failed to delete chat.'', w))))"

text \<open>
  \<open>get_chat_history_api\<close>; \<open>chat_id\<close> is \<open>request.args.get('chat_id')\<close>. The view
  leaves files and session as they are.
\<close>

definition get_chat_history_api ::
  "world \<Rightarrow> string option \<Rightarrow> db_outcome \<Rightarrow> (string \<Rightarrow> json option) \<Rightarrow> response" where
  "get_chat_history_api w chat_id db loads =
     (if chat_id \<noteq> None \<and> chat_id \<noteq> Some [] then
        (case get_chat_by_id (st_chats w) (the chat_id) of
           None \<Rightarrow> err 404 ''Chat not found.''
         | Some chat \<Rightarrow>
             if c_user_id chat \<noteq> s_user_id (st_session w) then err 403 ''Unauthorized.''
             else history_response chat_id (c_session_id chat) db loads)
      else
        (case s_session_id (st_session w) of
           None \<Rightarrow> Json 200 [(''history'', JArr []), (''message'', JStr ''No active chat found.'')]
         | Some session_id \<Rightarrow>
             history_response (s_chat_id (st_session w)) session_id db loads))"

text \<open>
  What \<open>requests.post\<close> and \<open>response.json()\<close> come to: one of the three exceptions the
  view catches, or the decoded object of the reply.
\<close>

datatype http_result =
    Timeout
  | RequestException string
  | JSONDecodeError
  | Replied "(string \<times> json) list"

definition send_message ::
  "world \<Rightarrow> body \<Rightarrow> draw \<Rightarrow> string \<Rightarrow> (json \<Rightarrow> (string \<times> json) list \<Rightarrow> http_result)
     \<Rightarrow> response \<times> world" where
  "send_message w user_data d now post =
     (if (case user_data of None \<Rightarrow> True | Some ud \<Rightarrow> map_of ud ''message'' = None) then
        (err 400 ''Invalid request. 'message' field is required.'', w)
      else
        (let user_message = body_get user_data ''message'';
             webhook_id = body_get user_data ''webhook_id'';
             target =
               (if truthy webhook_id then
                  (case get_webhook_by_id (st_webhooks w) webhook_id of
                     None \<Rightarrow> Inl (err 404
                       ''Selected webhook not found. Please select a valid webhook.'')
                   | Some webhook \<Rightarrow> Inr (w_url webhook))
                else
                  (case st_webhooks w of
                     [] \<Rightarrow> Inl (err 400
                       ''No webhook is configured. Please set one in the Webhook Management page.'')
                   | first # _ \<Rightarrow> Inr (w_url first)))
         in case target of
              Inl r \<Rightarrow> (r, w)
            | Inr webhook_url \<Rightarrow>
                (let w1 =
                       (if s_session_id (st_session w) = None \<or> s_chat_id (st_session w) = None
                        then
                          (case create_new_chat (st_chats w) (s_user_id (st_session w)) JNull d of
                             (new_chat, chats') \<Rightarrow>
                               w\<lparr>st_chats := chats',
                                  st_session := (st_session w)\<lparr>s_chat_id := Some (c_id new_chat),
                                      s_session_id := Some (c_session_id new_chat)\<rparr>\<rparr>)
                        else w);
                     session_id = opt_json (s_session_id (st_session w1));
                     chat_id = s_chat_id (st_session w1);
                     username = (case s_username (st_session w1) of
                                   None \<Rightarrow> codes ''Anonymous'' | Some u \<Rightarrow> u);
                     w2 = (case chat_id of
                             None \<Rightarrow> w1
                           | Some cid \<Rightarrow>
                               if cid = [] then w1
                               else w1\<lparr>st_chats := snd (update_chat (st_chats w1) cid [] now)\<rparr>);
                     payload = [(''user_message'', user_message),
                                (''session_id'', session_id),
                                (''username'', JText username)]
                 in case post webhook_url payload of
                      Timeout \<Rightarrow> (err 504 ''The request to the webhook timed out.'', w2)
                    | RequestException e \<Rightarrow>
                        (err 500 (''Webhook call failed. Please check the URL and ensure the endpoint is running. Details: '' @ e), w2)
                    | JSONDecodeError \<Rightarrow>
                        (err 500 ''Failed to decode JSON response from the webhook.'', w2)
                    | Replied webhook_response \<Rightarrow>
                        (case map_of webhook_response ''reply'' of
                           None \<Rightarrow> (err 500 ''Webhook response is missing the 'reply' key.'', w2)
                         | Some reply \<Rightarrow> (Json 200 [(''reply'', reply)], w2)))))"

section \<open>Routing\<close>

text \<open>The routes that carry \<open>@login_required\<close>, with what each request brings.\<close>

datatype request =
    GET_chat
  | GET_webhooks
  | GET_api_users
  | GET_api_chats
  | POST_api_chats body
  | PUT_api_chats string body
  | PUT_api_chats_rename string body
  | DELETE_api_chats string
  | GET_api_chat_history "string option"
  | POST_chat_send body

text \<open>Everything a request may consult outside the JSON files and the session.\<close>

record outside =
  o_draw :: draw
  o_now :: string
  o_db :: db_outcome
  o_loads :: "string \<Rightarrow> json option"
  o_post :: "json \<Rightarrow> (string \<times> json) list \<Rightarrow> http_result"

fun view :: "request \<Rightarrow> outside \<Rightarrow> world \<Rightarrow> response \<times> world" where
  "view GET_chat out w = chat_interface w"
| "view GET_webhooks out w = webhook_management w"
| "view GET_api_users out w = get_users w"
| "view GET_api_chats out w = get_chats w"
| "view (POST_api_chats data) out w = create_chat w data (o_draw out)"
| "view (PUT_api_chats chat_id data) out w = update_chat_endpoint w chat_id data (o_now out)"
| "view (PUT_api_chats_rename chat_id data) out w =
     rename_chat_endpoint w chat_id data (o_now out)"
| "view (DELETE_api_chats chat_id) out w = delete_chat_endpoint w chat_id"
| "view (GET_api_chat_history chat_id) out w =
     (get_chat_history_api w chat_id (o_db out) (o_loads out), w)"
| "view (POST_chat_send data) out w =
     send_message w data (o_draw out) (o_now out) (o_post out)"

definition dispatch :: "request \<Rightarrow> outside \<Rightarrow> world \<Rightarrow> response \<times> world" where
  "dispatch req out w = login_required (view req out) w"

text \<open>The views that begin with \<open>if not user_id: return ..., 401\<close>.\<close>

fun checks_user_id :: "request \<Rightarrow> bool" where
  "checks_user_id GET_api_chats = True"
| "checks_user_id (POST_api_chats data) = True"
| "checks_user_id (PUT_api_chats chat_id data) = True"
| "checks_user_id (PUT_api_chats_rename chat_id data) = True"
| "checks_user_id (DELETE_api_chats chat_id) = True"
| "checks_user_id _ = False"

fun is_page_route :: "request \<Rightarrow> bool" where
  "is_page_route GET_chat = True"
| "is_page_route GET_webhooks = True"
| "is_page_route _ = False"

section \<open>Example data\<close>

text \<open>
  A store with one chat of user \<open>u1\<close> and one of user \<open>u2\<close>, a session of \<open>u1\<close> whose
  active chat is \<open>c1\<close>, an anonymous session, and an outside world whose database refuses
  the connection and whose webhook times out.
\<close>

definition ex_draw :: draw where
  "ex_draw = \<lparr>uuid_a = ''s-new'', uuid_b = ''c-new'', formatted_date = ''Jan 7, 22:30'',
               now_a = ''2025-01-07T22:30:00'', now_b = ''2025-01-07T22:30:01''\<rparr>"

definition ex_loads :: "string \<Rightarrow> json option" where
  "ex_loads s = None"

definition ex_post :: "json \<Rightarrow> (string \<times> json) list \<Rightarrow> http_result" where
  "ex_post url payload = Timeout"

definition ex_outside :: outside where
  "ex_outside = \<lparr>o_draw = ex_draw, o_now = ''2025-01-08T09:00:00'',
                  o_db = ConnectFailed ''connection refused'',
                  o_loads = ex_loads, o_post = ex_post\<rparr>"

definition ex_chat1 :: chat where
  "ex_chat1 = \<lparr>c_id = ''c1'', c_user_id = Some ''u1'', c_session_id = ''s1'',
                c_title = JStr ''Old'', c_created_at = ''2025-01-01T10:00:00'',
                c_updated_at = ''2025-01-01T10:00:00''\<rparr>"

definition ex_chat2 :: chat where
  "ex_chat2 = \<lparr>c_id = ''c2'', c_user_id = Some ''u2'', c_session_id = ''s2'',
                c_title = JStr ''Theirs'', c_created_at = ''2025-01-02T10:00:00'',
                c_updated_at = ''2025-01-02T10:00:00''\<rparr>"

definition ex_anonymous :: session where
  "ex_anonymous = \<lparr>s_username = None, s_user_id = None, s_chat_id = None,
                    s_session_id = None\<rparr>"

definition ex_session :: session where
  "ex_session = \<lparr>s_username = Some (codes ''alice''), s_user_id = Some ''u1'',
                  s_chat_id = Some ''c1'', s_session_id = Some ''s1''\<rparr>"

definition ex_world :: "session \<Rightarrow> world" where
  "ex_world s = \<lparr>st_users = [], st_chats = [ex_chat1, ex_chat2], st_webhooks = [],
                  st_session = s\<rparr>"



text \<open>What the outside supplies to the creation tagged \<open>tag\<close>.\<close>

definition ex_draw_for :: "string \<Rightarrow> draw" where
  "ex_draw_for tag = \<lparr>uuid_a = ''s-'' @ tag, uuid_b = ''c-'' @ tag,
                       formatted_date = ''Jan 7, 22:30'',
                       now_a = ''2025-01-07T22:30:00'', now_b = ''2025-01-07T22:30:01''\<rparr>"

section \<open>Registry lemmas\<close>

lemma update_chat_found:
  "get_chat_by_id cs cid = Some c \<Longrightarrow>
   fst (update_chat cs cid upd now) =
     Some ((case map_of upd ''title'' of Some t \<Rightarrow> c\<lparr>c_title := t\<rparr> | None \<Rightarrow> c)
             \<lparr>c_updated_at := now\<rparr>)"
  by (induction cs) (auto simp: Let_def split: prod.splits option.splits)

lemma update_chat_lookup:
  "get_chat_by_id cs cid = Some c \<Longrightarrow>
   get_chat_by_id (snd (update_chat cs cid upd now)) cid' =
     (if cid' = cid
      then Some ((case map_of upd ''title'' of Some t \<Rightarrow> c\<lparr>c_title := t\<rparr> | None \<Rightarrow> c)
                   \<lparr>c_updated_at := now\<rparr>)
      else get_chat_by_id cs cid')"
  by (induction cs) (auto simp: Let_def split: prod.splits option.splits)

lemma delete_chat_found:
  assumes "get_chat_by_id cs cid = Some c"
  shows "delete_chat cs cid = (True, filter (\<lambda>c. c_id c \<noteq> cid) cs)"
proof -
  have "\<exists>x \<in> set cs. c_id x = cid" using assms
    by (induction cs) (auto split: if_splits)
  then have "length (filter (\<lambda>c. c_id c \<noteq> cid) cs) < length cs"
    by (metis (mono_tags, lifting) length_filter_less)
  then show ?thesis by (simp add: delete_chat_def)
qed

lemma session_user_id_Some:
  "session_user_id w = Some uid \<Longrightarrow> s_user_id (st_session w) = Some uid \<and> uid \<noteq> []"
  by (auto simp: session_user_id_def split: option.splits if_splits)

section \<open>The login gate\<close>

text \<open>Which views can answer 401, and when.\<close>

lemma history_not_401:
  "status_of (get_chat_history_api w chat_id db loads) \<noteq> 401"
  by (simp add: get_chat_history_api_def history_response_def Let_def
      split: option.splits sum.splits)

lemma create_chat_401:
  "(status_of (fst (create_chat w data d)) = 401) = (session_user_id w = None)"
  by (simp add: create_chat_def split: option.splits prod.splits)

lemma get_chats_401:
  "(status_of (fst (get_chats w)) = 401) = (session_user_id w = None)"
  by (simp add: get_chats_def Let_def split: option.splits)

lemma delete_chat_endpoint_401:
  "(status_of (fst (delete_chat_endpoint w chat_id)) = 401) = (session_user_id w = None)"
  by (simp add: delete_chat_endpoint_def Let_def
      split: option.splits prod.splits bool.splits)

lemma update_chat_endpoint_401:
  "(status_of (fst (update_chat_endpoint w chat_id data now)) = 401) = (session_user_id w = None)"
  by (simp add: update_chat_endpoint_def Let_def
      split: option.splits prod.splits)

lemma rename_chat_endpoint_401:
  "(status_of (fst (rename_chat_endpoint w chat_id data now)) = 401) = (session_user_id w = None)"
proof (cases "session_user_id w")
  case None
  then show ?thesis by (simp add: rename_chat_endpoint_def)
next
  case (Some uid)
  show ?thesis
  proof (cases "get_chat_by_id (st_chats w) chat_id")
    case None
    then show ?thesis using Some by (simp add: rename_chat_endpoint_def)
  next
    case (Some c)
    note c = this
    show ?thesis
    proof (cases "map_of (case data of None \<Rightarrow> [] | Some d \<Rightarrow> d) ''title''")
      case None
      then show ?thesis using c \<open>session_user_id w = Some uid\<close>
        by (cases data) (simp_all add: rename_chat_endpoint_def)
    next
      case (Some t)
      then obtain d where d: "data = Some d" "map_of d ''title'' = Some t"
        by (cases data) auto
      show ?thesis
        using c \<open>session_user_id w = Some uid\<close> d
        by (cases t)
           (simp_all add: rename_chat_endpoint_def Let_def split: prod.splits option.splits)
    qed
  qed
qed

lemma status_case_http:
  "status_of (fst (case r of
       Timeout \<Rightarrow> (err 504 a, w2)
     | RequestException e \<Rightarrow> (err 500 (b e), w2)
     | JSONDecodeError \<Rightarrow> (err 500 c, w2)
     | Replied webhook_response \<Rightarrow>
         (case map_of webhook_response ''reply'' of
            None \<Rightarrow> (err 500 d, w2)
          | Some reply \<Rightarrow> (Json 200 [(''reply'', reply)], w2)))) \<noteq> 401"
  by (cases r) (simp_all split: option.splits)

lemma send_message_not_401:
  "status_of (fst (send_message w data d now post)) \<noteq> 401"
proof (cases "case data of None \<Rightarrow> True | Some ud \<Rightarrow> map_of ud ''message'' = None")
  case True
  then show ?thesis by (simp add: send_message_def)
next
  case False
  show ?thesis
  proof (cases "truthy (body_get data ''webhook_id'')")
    case True
    note t = this
    show ?thesis
    proof (cases "get_webhook_by_id (st_webhooks w) (body_get data ''webhook_id'')")
      case None
      then show ?thesis using False t by (simp add: send_message_def Let_def)
    next
      case (Some wh)
      then show ?thesis using False t
        by (simp add: send_message_def Let_def status_case_http del: status_of.simps)
    qed
  next
    case f: False
    show ?thesis
    proof (cases "st_webhooks w")
      case Nil
      then show ?thesis using False f by (simp add: send_message_def Let_def)
    next
      case (Cons wh whs)
      then show ?thesis using False f
        by (simp add: send_message_def Let_def status_case_http del: status_of.simps)
    qed
  qed
qed

lemma dispatch_401:
  "(status_of (fst (dispatch req out w)) = 401) =
     (checks_user_id req \<and> s_username (st_session w) \<noteq> None \<and> session_user_id w = None)"
proof (cases "s_username (st_session w)")
  case None
  then show ?thesis by (simp add: dispatch_def login_required_def)
next
  case (Some u)
  then show ?thesis
    by (cases req)
       (simp_all add: dispatch_def login_required_def chat_interface_def
          webhook_management_def get_users_def get_chats_401 create_chat_401
          update_chat_endpoint_401 rename_chat_endpoint_401 delete_chat_endpoint_401
          history_not_401 send_message_not_401)
qed

text \<open>
  C1, as the claim states it, fails: with no username in the session, the API routes
  GET /api/chats, GET /api/chat/history and POST /chat/send answer with the redirect to
  \<open>/login\<close> (status 302), not with 401.
\<close>

theorem api_401_counterexample:
  "s_username (st_session (ex_world ex_anonymous)) = None
   \<and> is_page_route GET_api_chats = False
   \<and> dispatch GET_api_chats ex_outside (ex_world ex_anonymous) =
       (Redirect ''/login'', ex_world ex_anonymous)
   \<and> dispatch (GET_api_chat_history None) ex_outside (ex_world ex_anonymous) =
       (Redirect ''/login'', ex_world ex_anonymous)
   \<and> dispatch (POST_chat_send (Some [(''message'', JStr ''hi'')])) ex_outside
        (ex_world ex_anonymous) = (Redirect ''/login'', ex_world ex_anonymous)
   \<and> status_of (fst (dispatch GET_api_chats ex_outside (ex_world ex_anonymous))) = 302"
  by (simp add: dispatch_def login_required_def ex_world_def ex_anonymous_def)

text \<open>
  C1, amended. Every gated route, page or API, answers a request with no username in the
  session with a redirect to \<open>/login\<close> and changes nothing. The 401 "User not found in
  session." is what the chat routes (list, create, update, rename, delete) answer when a
  username is in the session and a truthy \<open>user_id\<close> is not; and a gated route answers 401
  in that case only: never for the pages, the user list, the history or the send route,
  and never in another state of the session.
\<close>

theorem anonymous_requests_are_redirected:
  "(s_username (st_session w) = None \<longrightarrow> dispatch req out w = (Redirect ''/login'', w))
   \<and> (s_username (st_session w) \<noteq> None \<and> session_user_id w = None \<longrightarrow>
        dispatch GET_api_chats out w = (err 401 ''User not found in session.'', w)
        \<and> dispatch (POST_api_chats data) out w = (err 401 ''User not found in session.'', w)
        \<and> dispatch (PUT_api_chats chat_id data) out w =
            (err 401 ''User not found in session.'', w)
        \<and> dispatch (PUT_api_chats_rename chat_id data) out w =
            (err 401 ''User not found in session.'', w)
        \<and> dispatch (DELETE_api_chats chat_id) out w =
            (err 401 ''User not found in session.'', w))
   \<and> (status_of (fst (dispatch req out w)) = 401) =
       (checks_user_id req \<and> s_username (st_session w) \<noteq> None \<and> session_user_id w = None)"
proof -
  have "s_username (st_session w) = None \<longrightarrow> dispatch req out w = (Redirect ''/login'', w)"
    by (simp add: dispatch_def login_required_def)
  moreover have "s_username (st_session w) \<noteq> None \<and> session_user_id w = None \<longrightarrow>
        dispatch GET_api_chats out w = (err 401 ''User not found in session.'', w)
        \<and> dispatch (POST_api_chats data) out w = (err 401 ''User not found in session.'', w)
        \<and> dispatch (PUT_api_chats chat_id data) out w =
            (err 401 ''User not found in session.'', w)
        \<and> dispatch (PUT_api_chats_rename chat_id data) out w =
            (err 401 ''User not found in session.'', w)
        \<and> dispatch (DELETE_api_chats chat_id) out w =
            (err 401 ''User not found in session.'', w)"
    by (simp add: dispatch_def login_required_def get_chats_def create_chat_def
        update_chat_endpoint_def rename_chat_endpoint_def delete_chat_endpoint_def)
  ultimately show ?thesis using dispatch_401 [of req out w] by blast
qed

theorem anonymous_requests_are_redirected_witness:
  "s_username (st_session (ex_world ex_anonymous)) = None
   \<and> dispatch GET_chat ex_outside (ex_world ex_anonymous) =
       (Redirect ''/login'', ex_world ex_anonymous)
   \<and> dispatch (POST_chat_send None) ex_outside (ex_world ex_anonymous) =
       (Redirect ''/login'', ex_world ex_anonymous)
   \<and> s_username (st_session (ex_world (ex_session\<lparr>s_user_id := None\<rparr>))) \<noteq> None
   \<and> session_user_id (ex_world (ex_session\<lparr>s_user_id := None\<rparr>)) = None
   \<and> dispatch GET_api_chats ex_outside (ex_world (ex_session\<lparr>s_user_id := None\<rparr>)) =
       (err 401 ''User not found in session.'', ex_world (ex_session\<lparr>s_user_id := None\<rparr>))
   \<and> status_of (fst (dispatch GET_api_users ex_outside
        (ex_world (ex_session\<lparr>s_user_id := None\<rparr>)))) \<noteq> 401"
proof -
  have a: "s_username (st_session (ex_world ex_anonymous)) = None"
    by (simp add: ex_world_def ex_anonymous_def)
  have b: "s_username (st_session (ex_world (ex_session\<lparr>s_user_id := None\<rparr>))) \<noteq> None"
    "session_user_id (ex_world (ex_session\<lparr>s_user_id := None\<rparr>)) = None"
    by (simp_all add: ex_world_def ex_session_def session_user_id_def)
  from anonymous_requests_are_redirected [of "ex_world ex_anonymous" GET_chat ex_outside]
       anonymous_requests_are_redirected [of "ex_world ex_anonymous" "POST_chat_send None"
         ex_outside]
       anonymous_requests_are_redirected [of "ex_world (ex_session\<lparr>s_user_id := None\<rparr>)"
         GET_api_users ex_outside]
       a b
  show ?thesis by simp
qed

section \<open>Ownership\<close>

text \<open>
  C2. A requester who is logged in, with identity \<open>requester\<close> bound in the session, targets
  a chat that \<open>get_chat_by_id\<close> resolves to a chat of another user: the rename, delete and
  history routes each answer 403 "Unauthorized." and leave the files and the session as
  they were.
\<close>

theorem foreign_chat_is_forbidden:
  assumes "s_username (st_session w) \<noteq> None"
      and "session_user_id w = Some requester"
      and "get_chat_by_id (st_chats w) chat_id = Some c"
      and "c_user_id c \<noteq> Some requester"
      and "chat_id \<noteq> []"
  shows "dispatch (PUT_api_chats_rename chat_id data) out w = (err 403 ''Unauthorized.'', w)
       \<and> dispatch (DELETE_api_chats chat_id) out w = (err 403 ''Unauthorized.'', w)
       \<and> dispatch (GET_api_chat_history (Some chat_id)) out w = (err 403 ''Unauthorized.'', w)"
proof -
  have uid: "s_user_id (st_session w) = Some requester"
    using assms(2) by (simp add: session_user_id_Some)
  show ?thesis
    using assms uid
    by (simp add: dispatch_def login_required_def rename_chat_endpoint_def
          delete_chat_endpoint_def get_chat_history_api_def)
qed

theorem foreign_chat_is_forbidden_witness:
  "s_username (st_session (ex_world ex_session)) \<noteq> None
   \<and> session_user_id (ex_world ex_session) = Some ''u1''
   \<and> get_chat_by_id (st_chats (ex_world ex_session)) ''c2'' = Some ex_chat2
   \<and> c_user_id ex_chat2 \<noteq> Some ''u1''
   \<and> ''c2'' \<noteq> []
   \<and> dispatch (PUT_api_chats_rename ''c2'' (Some [(''title'', JStr ''Mine'')])) ex_outside
        (ex_world ex_session) = (err 403 ''Unauthorized.'', ex_world ex_session)
   \<and> dispatch (DELETE_api_chats ''c2'') ex_outside (ex_world ex_session) =
        (err 403 ''Unauthorized.'', ex_world ex_session)
   \<and> dispatch (GET_api_chat_history (Some ''c2'')) ex_outside (ex_world ex_session) =
        (err 403 ''Unauthorized.'', ex_world ex_session)"
proof -
  have h: "s_username (st_session (ex_world ex_session)) \<noteq> None"
    "session_user_id (ex_world ex_session) = Some ''u1''"
    "get_chat_by_id (st_chats (ex_world ex_session)) ''c2'' = Some ex_chat2"
    "c_user_id ex_chat2 \<noteq> Some ''u1''"
    "''c2'' \<noteq> []"
    by (simp_all add: ex_world_def ex_session_def session_user_id_def ex_chat1_def ex_chat2_def)
  from foreign_chat_is_forbidden [OF h] h show ?thesis by blast
qed

section \<open>History\<close>

lemma format_history_acc: "format_history raw acc = acc @ spec_fetch_history raw"
proof (induction raw arbitrary: acc)
  case Nil
  then show ?case by (simp add: spec_fetch_history_def)
next
  case (Cons msg rest)
  show ?case
  proof (cases "h_message msg")
    case (JObj kvs)
    then show ?thesis
      using Cons.IH
      by (auto simp: spec_fetch_history_def spec_is_turn_def spec_entry_def Let_def
          split: option.splits json.splits)
  qed (simp_all add: Cons.IH spec_fetch_history_def spec_is_turn_def)
qed

text \<open>
  C3. On every sequence of raw records the loop of the view computes what the
  specification describes: the records whose message is an object of type "human" or "ai",
  in their order, each as its role ("user", "assistant") and content; every other record
  is dropped. When the table is read, the records come in ascending id and the view
  answers 200 with that history: the \<open>except\<close> clause is not reached.
\<close>

theorem history_normalization:
  "format_history raw [] = spec_fetch_history raw
   \<and> (\<exists>raw_history.
         get_chat_history (Table table None) loads session_id = Inr raw_history
         \<and> sorted (map h_id raw_history)
         \<and> history_response chat_id session_id (Table table None) loads =
             Json 200 [(''chat_id'', opt_json chat_id),
                       (''session_id'', JStr session_id),
                       (''history'', JArr (spec_fetch_history raw_history)),
                       (''total_messages'',
                          JNum (int (length (spec_fetch_history raw_history))))])"
  by (simp add: format_history_acc history_response_def get_chat_history_def select_rows_def
        Let_def comp_def)








section \<open>Renaming and updating\<close>

text \<open>
  C5, as the claim states it, fails: a title of 101 characters (a hundred letters and a
  trailing space) exceeds 100 characters, yet the rename is accepted with 200 and the
  trimmed title is stored.
\<close>

theorem rename_length_counterexample:
  "length (replicate 100 (CHR ''a'') @ '' '') = 101
   \<and> status_of (fst (dispatch
        (PUT_api_chats_rename ''c1'' (Some [(''title'', JStr (replicate 100 (CHR ''a'') @ '' ''))]))
        ex_outside (ex_world ex_session))) = 200
   \<and> map c_title (st_chats (snd (dispatch
        (PUT_api_chats_rename ''c1'' (Some [(''title'', JStr (replicate 100 (CHR ''a'') @ '' ''))]))
        ex_outside (ex_world ex_session)))) = [JStr (replicate 100 (CHR ''a'')), JStr ''Theirs'']"
  by code_simp

text \<open>
  C5, amended. For a chat of the requester and a rename request with a string title: if the
  title after trimming is empty or longer than 100 characters, the answer is 400 and
  nothing changes (files and session, so the chat's title and \<open>updated_at\<close>); otherwise
  the answer is 200 and the chat now has the trimmed title and \<open>updated_at\<close> set to the
  time of the request.
\<close>

theorem rename_validates_trimmed_title:
  assumes "s_username (st_session w) \<noteq> None"
      and "session_user_id w = Some requester"
      and "get_chat_by_id (st_chats w) chat_id = Some c"
      and "c_user_id c = Some requester"
      and "map_of d ''title'' = Some (JText title)"
      and "dispatch (PUT_api_chats_rename chat_id (Some d)) out w = (r, w')"
  shows "(strip title = [] \<or> length (strip title) > 100 \<longrightarrow> status_of r = 400 \<and> w' = w)
       \<and> (strip title \<noteq> [] \<and> length (strip title) \<le> 100 \<longrightarrow>
            r = Json 200 [(''message'', JStr ''Chat renamed successfully.''),
                          (''chat'', chat_json (c\<lparr>c_title := JText (strip title),
                                                   c_updated_at := o_now out\<rparr>))]
            \<and> get_chat_by_id (st_chats w') chat_id =
                Some (c\<lparr>c_title := JText (strip title), c_updated_at := o_now out\<rparr>))"
proof -
  let ?u = "update_chat (st_chats w) chat_id [(''title'', JText (strip title))] (o_now out)"
  have f: "fst ?u = Some (c\<lparr>c_title := JText (strip title), c_updated_at := o_now out\<rparr>)"
    using update_chat_found [OF assms(3)] by simp
  have l: "get_chat_by_id (snd ?u) chat_id =
             Some (c\<lparr>c_title := JText (strip title), c_updated_at := o_now out\<rparr>)"
    using update_chat_lookup [OF assms(3), of _ _ chat_id] by simp
  obtain cs' where u: "?u = (Some (c\<lparr>c_title := JText (strip title), c_updated_at := o_now out\<rparr>), cs')"
    using f by (cases ?u) auto
  have l': "get_chat_by_id cs' chat_id =
             Some (c\<lparr>c_title := JText (strip title), c_updated_at := o_now out\<rparr>)"
    using l u by simp
  show ?thesis
    using assms u l'
    by (auto simp: dispatch_def login_required_def rename_chat_endpoint_def Let_def
        split: if_splits)
qed


theorem rename_validates_trimmed_title_witness:
  "s_username (st_session (ex_world ex_session)) \<noteq> None
   \<and> session_user_id (ex_world ex_session) = Some ''u1''
   \<and> get_chat_by_id (st_chats (ex_world ex_session)) ''c1'' = Some ex_chat1
   \<and> c_user_id ex_chat1 = Some ''u1''
   \<and> map_of [(''title'', JStr ''   '')] ''title'' = Some (JStr ''   '')
   \<and> dispatch (PUT_api_chats_rename ''c1'' (Some [(''title'', JStr ''   '')])) ex_outside
        (ex_world ex_session) = (err 400 ''Title cannot be empty.'', ex_world ex_session)
   \<and> strip (codes ''   '') = []
   \<and> status_of (err 400 ''Title cannot be empty.'') = 400"
proof -
  have h: "s_username (st_session (ex_world ex_session)) \<noteq> None"
    "session_user_id (ex_world ex_session) = Some ''u1''"
    "get_chat_by_id (st_chats (ex_world ex_session)) ''c1'' = Some ex_chat1"
    "c_user_id ex_chat1 = Some ''u1''"
    "map_of [(''title'', JStr ''   '')] ''title'' = Some (JStr ''   '')"
    by (simp_all add: ex_world_def ex_session_def session_user_id_def ex_chat1_def)
  have s: "strip (codes ''   '') = []"
    by (simp add: strip_def py_isspace_def)
  have d: "dispatch (PUT_api_chats_rename ''c1'' (Some [(''title'', JStr ''   '')])) ex_outside
        (ex_world ex_session) = (err 400 ''Title cannot be empty.'', ex_world ex_session)"
    using h s by (simp add: dispatch_def login_required_def rename_chat_endpoint_def)
  from rename_validates_trimmed_title [OF h d] h d s show ?thesis by simp
qed

section \<open>Deleting the active chat\<close>

lemma get_chat_by_id_removed:
  "get_chat_by_id (filter (\<lambda>c. c_id c \<noteq> cid) cs) cid = None"
  by (induction cs) auto

text \<open>
  C8. When the requester deletes one of their chats, the answer is 200 and the chat is
  gone. If it was the active chat of the session, the session has no active chat and no
  session id afterwards, and a history request without \<open>chat_id\<close> answers 200 with an empty
  history and the message "No active chat found."; if it was not, the session is as before.
\<close>

theorem deleting_active_chat_clears_binding:
  assumes "s_username (st_session w) \<noteq> None"
      and "session_user_id w = Some requester"
      and "get_chat_by_id (st_chats w) chat_id = Some c"
      and "c_user_id c = Some requester"
      and "dispatch (DELETE_api_chats chat_id) out w = (r, w')"
  shows "r = Json 200 [(''message'', JStr ''Chat deleted successfully.'')]
       \<and> get_chat_by_id (st_chats w') chat_id = None
       \<and> (s_chat_id (st_session w) = Some chat_id \<longrightarrow>
            s_chat_id (st_session w') = None \<and> s_session_id (st_session w') = None
            \<and> dispatch (GET_api_chat_history None) out' w' =
                (Json 200 [(''history'', JArr []), (''message'', JStr ''No active chat found.'')],
                 w'))
       \<and> (s_chat_id (st_session w) \<noteq> Some chat_id \<longrightarrow> st_session w' = st_session w)"
  using assms delete_chat_found [OF assms(3)]
  by (auto simp: dispatch_def login_required_def delete_chat_endpoint_def
        get_chat_history_api_def get_chat_by_id_removed split: if_splits)

theorem deleting_active_chat_clears_binding_witness:
  "s_username (st_session (ex_world ex_session)) \<noteq> None
   \<and> session_user_id (ex_world ex_session) = Some ''u1''
   \<and> get_chat_by_id (st_chats (ex_world ex_session)) ''c1'' = Some ex_chat1
   \<and> c_user_id ex_chat1 = Some ''u1''
   \<and> s_chat_id (st_session (ex_world ex_session)) = Some ''c1''
   \<and> dispatch (DELETE_api_chats ''c1'') ex_outside (ex_world ex_session) =
       (Json 200 [(''message'', JStr ''Chat deleted successfully.'')],
        \<lparr>st_users = [], st_chats = [ex_chat2], st_webhooks = [],
         st_session = ex_session\<lparr>s_chat_id := None, s_session_id := None\<rparr>\<rparr>)
   \<and> dispatch (GET_api_chat_history None) ex_outside
        \<lparr>st_users = [], st_chats = [ex_chat2], st_webhooks = [],
         st_session = ex_session\<lparr>s_chat_id := None, s_session_id := None\<rparr>\<rparr> =
       (Json 200 [(''history'', JArr []), (''message'', JStr ''No active chat found.'')],
        \<lparr>st_users = [], st_chats = [ex_chat2], st_webhooks = [],
         st_session = ex_session\<lparr>s_chat_id := None, s_session_id := None\<rparr>\<rparr>)"
proof -
  have h: "s_username (st_session (ex_world ex_session)) \<noteq> None"
    "session_user_id (ex_world ex_session) = Some ''u1''"
    "get_chat_by_id (st_chats (ex_world ex_session)) ''c1'' = Some ex_chat1"
    "c_user_id ex_chat1 = Some ''u1''"
    by (simp_all add: ex_world_def ex_session_def session_user_id_def ex_chat1_def)
  have a: "s_chat_id (st_session (ex_world ex_session)) = Some ''c1''"
    by (simp add: ex_world_def ex_session_def)
  have d: "dispatch (DELETE_api_chats ''c1'') ex_outside (ex_world ex_session) =
       (Json 200 [(''message'', JStr ''Chat deleted successfully.'')],
        \<lparr>st_users = [], st_chats = [ex_chat2], st_webhooks = [],
         st_session = ex_session\<lparr>s_chat_id := None, s_session_id := None\<rparr>\<rparr>)"
    by (simp add: dispatch_def login_required_def delete_chat_endpoint_def delete_chat_def
          ex_world_def ex_session_def session_user_id_def ex_chat1_def ex_chat2_def)
  from deleting_active_chat_clears_binding [OF h d, of ex_outside] h a d show ?thesis by simp
qed

section \<open>Generic update\<close>

text \<open>
  C10. For a chat of the requester and any title string (empty and over-long ones
  included), PUT /api/chats/{id} with a body holding that title and no switch action
  answers 200 with the updated chat, stores the title as given and sets \<open>updated_at\<close> to
  the time of the request; the session is untouched.
\<close>

theorem generic_update_stores_title_verbatim:
  assumes "s_username (st_session w) \<noteq> None"
      and "session_user_id w = Some requester"
      and "get_chat_by_id (st_chats w) chat_id = Some c"
      and "c_user_id c = Some requester"
      and "map_of d ''title'' = Some (JText title)"
      and "map_of d ''action'' \<noteq> Some (JStr ''switch'')"
      and "dispatch (PUT_api_chats chat_id (Some d)) out w = (r, w')"
  shows "r = Json 200 [(''message'', JStr ''Chat updated successfully.''),
                       (''chat'', chat_json (c\<lparr>c_title := JText title,
                                                c_updated_at := o_now out\<rparr>))]
       \<and> get_chat_by_id (st_chats w') chat_id =
           Some (c\<lparr>c_title := JText title, c_updated_at := o_now out\<rparr>)
       \<and> st_session w' = st_session w"
proof -
  let ?u = "update_chat (st_chats w) chat_id [(''title'', JText title)] (o_now out)"
  let ?c = "c\<lparr>c_title := JText title, c_updated_at := o_now out\<rparr>"
  have f: "fst ?u = Some ?c"
    using update_chat_found [OF assms(3)] by simp
  have l: "get_chat_by_id (snd ?u) chat_id = Some ?c"
    using update_chat_lookup [OF assms(3), of _ _ chat_id] by simp
  obtain cs' where u: "?u = (Some ?c, cs')"
    using f by (cases ?u) auto
  have l': "get_chat_by_id cs' chat_id = Some ?c"
    using l u by simp
  have act: "body_get (Some d) ''action'' \<noteq> JStr ''switch''"
    using assms(6) by (auto simp: body_get_def split: option.splits)
  show ?thesis
    using assms(1-5,7) u l' act
    by (auto simp: dispatch_def login_required_def update_chat_endpoint_def Let_def)
qed

theorem generic_update_stores_title_verbatim_witness:
  "s_username (st_session (ex_world ex_session)) \<noteq> None
   \<and> session_user_id (ex_world ex_session) = Some ''u1''
   \<and> get_chat_by_id (st_chats (ex_world ex_session)) ''c1'' = Some ex_chat1
   \<and> c_user_id ex_chat1 = Some ''u1''
   \<and> map_of [(''title'', JStr [])] ''title'' = Some (JStr [])
   \<and> map_of [(''title'', JStr [])] ''action'' \<noteq> Some (JStr ''switch'')
   \<and> fst (dispatch (PUT_api_chats ''c1'' (Some [(''title'', JStr [])])) ex_outside
        (ex_world ex_session)) =
       Json 200 [(''message'', JStr ''Chat updated successfully.''),
                 (''chat'', chat_json (ex_chat1\<lparr>c_title := JStr [],
                                            c_updated_at := ''2025-01-08T09:00:00''\<rparr>))]"
proof -
  have h: "s_username (st_session (ex_world ex_session)) \<noteq> None"
    "session_user_id (ex_world ex_session) = Some ''u1''"
    "get_chat_by_id (st_chats (ex_world ex_session)) ''c1'' = Some ex_chat1"
    "c_user_id ex_chat1 = Some ''u1''"
    "map_of [(''title'', JStr [])] ''title'' = Some (JStr [])"
    "map_of [(''title'', JStr [])] ''action'' \<noteq> Some (JStr ''switch'')"
    by (simp_all add: ex_world_def ex_session_def session_user_id_def ex_chat1_def)
  have d: "dispatch (PUT_api_chats ''c1'' (Some [(''title'', JStr [])])) ex_outside
        (ex_world ex_session) =
       (fst (dispatch (PUT_api_chats ''c1'' (Some [(''title'', JStr [])])) ex_outside
          (ex_world ex_session)),
        snd (dispatch (PUT_api_chats ''c1'' (Some [(''title'', JStr [])])) ex_outside
          (ex_world ex_session)))"
    by simp
  from generic_update_stores_title_verbatim [OF h d] h show ?thesis
    by (simp add: ex_outside_def)
qed

section \<open>Automatic titles\<close>

text \<open>
  C6, as the claim states it, fails: a user creates two chats without a title
  ("Chat-1 ...", "Chat-2 ..."), deletes the first and creates a third, which is titled
  "Chat-2 (Jan 7, 22:30)" again, not "Chat-3"; and each title carries the date suffix.
\<close>

theorem auto_title_counterexample:
  "map c_title (fst (create_all [] (Some ''u1'') [ex_draw_for ''a'', ex_draw_for ''b''])) =
     [JStr ''Chat-1 (Jan 7, 22:30)'', JStr ''Chat-2 (Jan 7, 22:30)'']
   \<and> c_title (fst (create_new_chat
        (snd (delete_chat
           (snd (create_all [] (Some ''u1'') [ex_draw_for ''a'', ex_draw_for ''b'']))
           ''c-a''))
        (Some ''u1'') JNull (ex_draw_for ''c''))) = JStr ''Chat-2 (Jan 7, 22:30)''"
  by code_simp

lemma get_user_chats_append:
  "length (get_user_chats (chats @ [new_chat]) user_id) =
     length (get_user_chats chats user_id) + (if c_user_id new_chat = user_id then 1 else 0)"
  by (simp add: get_user_chats_def)

lemma create_all_fst:
  "fst (create_all chats user_id (d # ds)) =
     fst (create_new_chat chats user_id JNull d)
       # fst (create_all (snd (create_new_chat chats user_id JNull d)) user_id ds)"
  by (simp split: prod.splits)

lemma create_new_chat_untitled:
  "\<not> truthy title \<Longrightarrow>
   create_new_chat chats user_id title d =
     (\<lparr>c_id = uuid_b d, c_user_id = user_id, c_session_id = uuid_a d,
       c_title = JStr (auto_title (length (get_user_chats chats user_id)) (formatted_date d)),
       c_created_at = now_a d, c_updated_at = now_b d\<rparr>,
      chats @ [\<lparr>c_id = uuid_b d, c_user_id = user_id, c_session_id = uuid_a d,
       c_title = JStr (auto_title (length (get_user_chats chats user_id)) (formatted_date d)),
       c_created_at = now_a d, c_updated_at = now_b d\<rparr>])"
  by (simp add: create_new_chat_def Let_def)

lemma create_all_titles:
  "k < length ds \<Longrightarrow>
   c_title (fst (create_all chats user_id ds) ! k) =
     JStr (auto_title (length (get_user_chats chats user_id) + k) (formatted_date (ds ! k)))"
proof (induction ds arbitrary: chats k)
  case Nil
  then show ?case by simp
next
  case (Cons d ds)
  show ?case
  proof (cases k)
    case 0
    then show ?thesis
      by (simp only: create_all_fst) (simp add: create_new_chat_untitled)
  next
    case (Suc j)
    then have "j < length ds" using Cons.prems by simp
    from Cons.IH [OF this, of "snd (create_new_chat chats user_id JNull d)"]
    show ?thesis
      using Suc
      by (simp only: create_all_fst) (simp add: create_new_chat_untitled get_user_chats_append)
  qed
qed

lemma create_all_length: "length (fst (create_all chats user_id ds)) = length ds"
proof (induction ds arbitrary: chats)
  case Nil
  show ?case by simp
next
  case (Cons d ds)
  show ?case by (simp only: create_all_fst) (simp add: Cons.IH)
qed

text \<open>
  C6, amended. A chat created without a (truthy) title is titled "Chat-n (date)" where n is
  1 + the number of chats the user has in the store at that moment. So a run of creations
  with nothing deleted in between, from a store where the user has m chats, gives the
  numbers m+1, m+2, ... in creation order.
\<close>

theorem auto_title_counts_live_chats:
  assumes "\<not> truthy title" and "k < length ds"
  shows "c_title (fst (create_new_chat chats user_id title d)) =
           JStr (''Chat-'' @ str_nat (length (get_user_chats chats user_id) + 1)
                  @ '' ('' @ formatted_date d @ '')'')
       \<and> length (fst (create_all chats user_id ds)) = length ds
       \<and> c_title (fst (create_all chats user_id ds) ! k) =
           JStr (''Chat-'' @ str_nat (length (get_user_chats chats user_id) + k + 1)
                  @ '' ('' @ formatted_date (ds ! k) @ '')'')"
  using assms create_all_titles [of k ds chats user_id]
  by (simp add: create_new_chat_untitled auto_title_def create_all_length)

theorem auto_title_counts_live_chats_witness:
  "\<not> truthy JNull \<and> (1::nat) < length [ex_draw_for ''a'', ex_draw_for ''b'']
   \<and> c_title (fst (create_all [] (Some ''u1'') [ex_draw_for ''a'', ex_draw_for ''b'']) ! 1) =
       JStr ''Chat-2 (Jan 7, 22:30)''"
proof -
  have h1: "\<not> truthy JNull" by simp
  have h2: "(1::nat) < length [ex_draw_for ''a'', ex_draw_for ''b'']" by simp
  have n: "str_nat (length (get_user_chats [] (Some ''u1'')) + 1 + 1) = ''2''"
    by code_simp
  have f: "formatted_date ([ex_draw_for ''a'', ex_draw_for ''b''] ! 1) = ''Jan 7, 22:30''"
    by (simp add: ex_draw_for_def)
  from auto_title_counts_live_chats [OF h1 h2, of "[]" "Some ''u1''"] h1 h2
  show ?thesis by (simp only: n f) simp
qed

section \<open>Users\<close>

lemma ensure_data_file_present:
  "webhooks_json dir \<noteq> Missing \<Longrightarrow> users_json dir \<noteq> Missing \<Longrightarrow>
   chats_json dir \<noteq> Missing \<Longrightarrow> ensure_data_file dir = dir"
  by (simp add: ensure_data_file_def)







lemma stamp_same_lower:
  "lower db u1 = lower db u2 \<Longrightarrow> stamp_last_login db us u1 now = stamp_last_login db us u2 now"
  by (induction us) auto








section \<open>Legacy webhook endpoint\<close>

text \<open>
  C9. On an empty registry, the legacy POST with \<open>{webhook_url: u}\<close> answers 200 and leaves
  exactly one webhook, named "Default Webhook", with URL \<open>u\<close>; a second legacy POST with any
  URL \<open>v\<close> answers 200 and leaves exactly that one webhook, same id and name, with URL \<open>v\<close>.
  On any registry that is not empty, the POST replaces the URL of the first webhook and
  nothing else.
\<close>

theorem legacy_webhook_set_first_or_create:
  "update_webhook_legacy [] (Some [(''webhook_url'', u)]) fresh =
     (Json 200 [(''message'', JStr ''Webhook updated successfully.''), (''webhook_url'', u)],
      [\<lparr>w_id = fresh, w_name = JStr ''Default Webhook'', w_url = u\<rparr>])
   \<and> update_webhook_legacy
         (snd (update_webhook_legacy [] (Some [(''webhook_url'', u)]) fresh))
         (Some [(''webhook_url'', v)]) fresh' =
     (Json 200 [(''message'', JStr ''Webhook updated successfully.''), (''webhook_url'', v)],
      [\<lparr>w_id = fresh, w_name = JStr ''Default Webhook'', w_url = v\<rparr>])
   \<and> update_webhook_legacy (first # others) (Some [(''webhook_url'', v)]) fresh' =
     (Json 200 [(''message'', JStr ''Webhook updated successfully.''), (''webhook_url'', v)],
      \<lparr>w_id = w_id first, w_name = w_name first, w_url = v\<rparr> # others)"
  by (simp add: update_webhook_legacy_def)

end
